theory Spec2Isabelle
  imports Main "HOL-Library.Sublist"
begin

section \<open>Python values and string operations used by e5.py\<close>

text \<open>
  A Python \<open>str\<close> is a sequence of Unicode code points, so it is modelled as a list of
  natural numbers.  ASCII literals of the source are written with \<open>lit\<close>; the emoji of the
  source are written by their code point.
\<close>

type_synonym pystr = "nat list"

definition lit :: "string \<Rightarrow> pystr" where
  "lit s = map of_char s"

text \<open>\<open>os.getenv\<close>, \<open>form.get\<close> and \<open>args.get\<close> return either \<open>None\<close> or a \<open>str\<close>.\<close>

datatype pyval = PyNone | PyStr pystr

text \<open>Truth value testing (\<open>if x:\<close>, \<open>not x\<close>, \<open>and\<close>): \<open>None\<close> and \<open>""\<close> are false.\<close>

fun truthy :: "pyval \<Rightarrow> bool" where
  "truthy PyNone = False"
| "truthy (PyStr s) = (s \<noteq> [])"

text \<open>What a replacement field \<open>{x}\<close> of an f-string inserts.\<close>

fun py_format :: "pyval \<Rightarrow> pystr" where
  "py_format PyNone = lit ''None''"
| "py_format (PyStr s) = s"

text \<open>
  The code points \<open>str.strip()\<close> removes when called without argument (those for which
  \<open>str.isspace\<close> holds).
\<close>

definition py_isspace :: "nat \<Rightarrow> bool" where
  "py_isspace c \<longleftrightarrow>
     (9 \<le> c \<and> c \<le> 13) \<or> (28 \<le> c \<and> c \<le> 32) \<or> c = 133 \<or> c = 160 \<or> c = 5760 \<or>
     (8192 \<le> c \<and> c \<le> 8202) \<or> c = 8232 \<or> c = 8233 \<or> c = 8239 \<or> c = 8287 \<or> c = 12288"

definition py_strip :: "pystr \<Rightarrow> pystr" where
  "py_strip s = rev (dropWhile py_isspace (rev (dropWhile py_isspace s)))"

definition py_endswith :: "pystr \<Rightarrow> pystr \<Rightarrow> bool" where
  "py_endswith s suf \<longleftrightarrow>
     length suf \<le> length s \<and> drop (length s - length suf) s = suf"

fun py_join :: "pystr \<Rightarrow> pystr list \<Rightarrow> pystr" where
  "py_join sep [] = []"
| "py_join sep [x] = x"
| "py_join sep (x # y # ys) = x @ sep @ py_join sep (y # ys)"

text \<open>The decimal digits of \<open>len(chunks)\<close> as an f-string prints them.\<close>

fun py_str_nat :: "nat \<Rightarrow> pystr" where
  "py_str_nat n = (if n < 10 then [48 + n] else py_str_nat (n div 10) @ [48 + n mod 10])"

declare py_str_nat.simps [simp del]

definition newline :: pystr where
  "newline = [10]"

section \<open>Exceptions, external calls and their trace\<close>

text \<open>
  The exceptions the script raises itself, the \<open>NameError\<close> of the interpreter, and
  \<open>LibraryError\<close> for whatever a library call (pypdf, python-docx, pdf2image, pytesseract,
  langchain, FAISS, the OpenAI client, \<open>os.listdir\<close>) raises.
\<close>

datatype error =
    ValueError pystr
  | FileNotFoundError pystr
  | NameError pystr
  | LibraryError pystr

text \<open>Every call that leaves the script is recorded, in program order.\<close>

datatype event =
    LoadDotenv
  | Getenv pystr
  | PathExists pystr
  | ListDir pystr
  | PdfReaderOpen pystr
  | PageExtractText
  | ConvertFromPath pystr
  | ImageToString pystr
  | DocumentOpen pystr
  | Print pystr
  | SplitText nat nat pystr
  | NewOpenAIEmbeddings pyval
  | FaissFromTexts "pystr list"
  | NewOpenAI pyval
  | AsRetriever
  | RetrievalQAFromChainType
  | NewFlask pystr
  | AppRun
  | QaChainRun pyval
  | LlmInvoke pystr

text \<open>
  A computation yields an exception or a value, together with the calls it made.  An
  exception is never caught in e5.py (there is no \<open>try\<close>), so \<open>io_bind\<close> stops at the
  first one.
\<close>

type_synonym 'a io = "(error + 'a) \<times> event list"

definition io_return :: "'a \<Rightarrow> 'a io" where
  "io_return x = (Inr x, [])"

definition io_raise :: "error \<Rightarrow> 'a io" where
  "io_raise e = (Inl e, [])"

definition io_call :: "event \<Rightarrow> error + 'a \<Rightarrow> 'a io" where
  "io_call ev outcome = (outcome, [ev])"

definition io_print :: "pystr \<Rightarrow> unit io" where
  "io_print s = (Inr (), [Print s])"

definition io_bind :: "'a io \<Rightarrow> ('a \<Rightarrow> 'b io) \<Rightarrow> 'b io" where
  "io_bind m f =
     (case m of
        (Inl e, tr) \<Rightarrow> (Inl e, tr)
      | (Inr x, tr) \<Rightarrow> (case f x of (r, tr') \<Rightarrow> (r, tr @ tr')))"

section \<open>Document loader\<close>

text \<open>
  What the libraries find in a PDF file: \<open>PdfReader(path)\<close> raises or gives the pages, and
  \<open>page.extract_text()\<close> raises or gives a \<open>str\<close> for each page;
  \<open>convert_from_path(path)\<close> raises or gives the page images, and
  \<open>pytesseract.image_to_string(img, lang="hin")\<close> raises or gives a \<open>str\<close> for each image.
\<close>

record pdf_file =
  pdf_pages :: "(error + (error + pystr) list)"
  pdf_ocr :: "(error + (error + pystr) list)"

text \<open>The loop of lines 28--31.\<close>

fun pages_loop :: "(error + pystr) list \<Rightarrow> pystr \<Rightarrow> pystr io" where
  "pages_loop [] text = io_return text"
| "pages_loop (page # pages) text =
     io_bind (io_call PageExtractText page) (\<lambda>page_text.
       pages_loop pages (if page_text \<noteq> [] then text @ page_text @ newline else text))"

text \<open>The loop of lines 35--36.\<close>

fun images_loop :: "(error + pystr) list \<Rightarrow> pystr \<Rightarrow> pystr io" where
  "images_loop [] text = io_return text"
| "images_loop (img # images) text =
     io_bind (io_call (ImageToString (lit ''hin'')) img) (\<lambda>ocr_text.
       images_loop images (text @ ocr_text @ newline))"

definition ocr_message :: "pystr \<Rightarrow> pystr" where
  "ocr_message pdf_path =
     [0x1F50D] @ lit '' No direct text found in '' @ pdf_path @ lit '', using OCR...''"

definition extract_text_from_pdf :: "(pystr \<Rightarrow> pdf_file) \<Rightarrow> pystr \<Rightarrow> pystr io" where
  "extract_text_from_pdf pdf_files pdf_path =
     io_bind (io_call (PdfReaderOpen pdf_path) (pdf_pages (pdf_files pdf_path))) (\<lambda>pages.
     io_bind (pages_loop pages []) (\<lambda>text.
     io_bind
       (if py_strip text = [] then
          io_bind (io_print (ocr_message pdf_path)) (\<lambda>_.
          io_bind (io_call (ConvertFromPath pdf_path) (pdf_ocr (pdf_files pdf_path))) (\<lambda>images.
          images_loop images text))
        else io_return text) (\<lambda>text.
     io_return (py_strip text))))"

text \<open>
  \<open>Document(path)\<close> raises or gives the paragraphs of a DOCX file, of which the script
  reads the \<open>text\<close>.
\<close>

definition extract_text_from_docx :: "(pystr \<Rightarrow> error + pystr list) \<Rightarrow> pystr \<Rightarrow> pystr io" where
  "extract_text_from_docx docx_files docx_path =
     io_bind (io_call (DocumentOpen docx_path) (docx_files docx_path)) (\<lambda>paragraphs.
     io_return (py_strip (py_join newline (filter (\<lambda>para. py_strip para \<noteq> []) paragraphs))))"

text \<open>
  Everything outside the script that its top level and its handlers depend on.  The
  library calls are parameters, since the script only invokes them; those that read files
  or reach a service may raise.
  \<^item> \<open>getenv_openai_api_key\<close>: what \<open>os.getenv("OPENAI_API_KEY")\<close> returns after
    \<open>load_dotenv()\<close>;
  \<^item> \<open>data_folder\<close>: the path computed in line 47; \<open>path_exists\<close>: whether
    \<open>os.path.exists\<close> finds it; \<open>listdir\<close>: what \<open>os.listdir\<close> gives for it;
    \<open>path_join\<close>: \<open>os.path.join\<close>;
  \<^item> \<open>pdf_at\<close>, \<open>docx_at\<close>: what pypdf, pdf2image, pytesseract and python-docx find at
    a path;
  \<^item> \<open>split_text\<close>: \<open>RecursiveCharacterTextSplitter(chunk_size, chunk_overlap).split_text\<close>;
  \<^item> \<open>faiss_from_texts\<close>: \<open>FAISS.from_texts\<close> with the OpenAI embeddings;
  \<^item> \<open>qa_chain_run\<close>, \<open>llm_invoke\<close>: \<open>qa_chain.run\<close> and \<open>llm.invoke\<close>;
  \<^item> \<open>module_dunder_name\<close>: the value of \<open>__name__\<close>, which is \<open>"__main__"\<close> when the file
    is run as a script.

  The assignment of line 21 (the path of the Tesseract binary) and the route decorators
  call nothing and have no counterpart here.
\<close>

record env =
  getenv_openai_api_key :: pyval
  data_folder :: pystr
  path_exists :: bool
  listdir :: "error + pystr list"
  path_join :: "pystr \<Rightarrow> pystr \<Rightarrow> pystr"
  pdf_at :: "pystr \<Rightarrow> pdf_file"
  docx_at :: "pystr \<Rightarrow> error + pystr list"
  split_text :: "nat \<Rightarrow> nat \<Rightarrow> pystr \<Rightarrow> error + pystr list"
  faiss_from_texts :: "pystr list \<Rightarrow> error + unit"
  qa_chain_run :: "pyval \<Rightarrow> error + pyval"
  llm_invoke :: "pystr \<Rightarrow> error + pyval"
  module_dunder_name :: pystr

text \<open>The loop of lines 52--64 over the names \<open>os.listdir\<close> returned.\<close>

fun load_loop :: "env \<Rightarrow> pystr list \<Rightarrow> pystr list \<Rightarrow> pystr list io" where
  "load_loop env [] all_text = io_return all_text"
| "load_loop env (filename # rest) all_text =
     (let file_path = path_join env (data_folder env) filename in
      if py_endswith filename (lit ''.pdf'') then
        io_bind (extract_text_from_pdf (pdf_at env) file_path) (\<lambda>extracted_text.
          if extracted_text \<noteq> [] then
            io_bind (io_print ([0x2705] @ lit '' Loaded PDF: '' @ filename)) (\<lambda>_.
            load_loop env rest (all_text @ [extracted_text]))
          else load_loop env rest all_text)
      else if py_endswith filename (lit ''.docx'') then
        io_bind (extract_text_from_docx (docx_at env) file_path) (\<lambda>extracted_text.
          if extracted_text \<noteq> [] then
            io_bind (io_print ([0x2705] @ lit '' Loaded DOCX: '' @ filename)) (\<lambda>_.
            load_loop env rest (all_text @ [extracted_text]))
          else load_loop env rest all_text)
      else load_loop env rest all_text)"

section \<open>Module top level\<close>

text \<open>Lines 14--17.\<close>

definition load_api_key :: "env \<Rightarrow> pyval io" where
  "load_api_key env =
     io_bind (io_call LoadDotenv (Inr ())) (\<lambda>_.
     io_bind (io_call (Getenv (lit ''OPENAI_API_KEY'')) (Inr (getenv_openai_api_key env)))
       (\<lambda>openai_api_key.
     if \<not> truthy openai_api_key then
       io_raise (ValueError (lit ''OpenAI API key is missing! Check your .env file.''))
     else io_return openai_api_key))"

text \<open>Lines 47--69.\<close>

definition load_documents :: "env \<Rightarrow> pystr io" where
  "load_documents env =
     io_bind (io_call (PathExists (data_folder env)) (Inr (path_exists env))) (\<lambda>found.
     if \<not> found then
       io_raise (FileNotFoundError (lit ''Folder not found: '' @ data_folder env))
     else
       io_bind (io_call (ListDir (data_folder env)) (listdir env)) (\<lambda>filenames.
       io_bind (load_loop env filenames []) (\<lambda>all_text.
       if all_text = [] then
         io_raise (ValueError (lit ''No valid content found in the PDFs or DOCX files.''))
       else
         io_bind (io_print ([0x2705] @ lit '' All PDFs & DOCX files loaded successfully!''))
           (\<lambda>_.
         io_return (py_join newline all_text)))))"

text \<open>Lines 72--99: chunking, embedding, the vector store, the retrieval chain, the app.\<close>

definition build_index :: "env \<Rightarrow> pyval \<Rightarrow> pystr \<Rightarrow> unit io" where
  "build_index env openai_api_key full_text =
     io_bind (io_call (SplitText 500 50 full_text) (split_text env 500 50 full_text))
       (\<lambda>chunks.
     io_bind (io_print ([0x2705] @ lit '' Generated '' @ py_str_nat (length chunks)
                @ lit '' text chunks.'')) (\<lambda>_.
     io_bind (io_call (NewOpenAIEmbeddings openai_api_key) (Inr ())) (\<lambda>_.
     io_bind (io_call (FaissFromTexts chunks) (faiss_from_texts env chunks)) (\<lambda>_.
     io_bind (io_print ([0x2705] @ lit '' FAISS Vector Store Created!'')) (\<lambda>_.
     io_bind (io_call (NewOpenAI openai_api_key) (Inr ())) (\<lambda>_.
     io_bind (io_call AsRetriever (Inr ())) (\<lambda>_.
     io_bind (io_call RetrievalQAFromChainType (Inr ())) (\<lambda>_.
     io_call (NewFlask (module_dunder_name env)) (Inr ())))))))))"

text \<open>
  The names bound in the module namespace when line 119 is reached: \<open>__name__\<close> and
  \<open>__file__\<close>, which the interpreter sets, and the names the script imports, assigns and
  defines.  Only the values that are \<open>None\<close> or a \<open>str\<close> are spelled out.  Python looks a
  global name up in this namespace and then among the builtins, none of which is called
  \<open>_name_\<close>.
\<close>

datatype binding = Value pyval | Object

definition module_namespace :: "env \<Rightarrow> (string \<times> binding) list" where
  "module_namespace env =
     [(''__name__'', Value (PyStr (module_dunder_name env))),
      (''__file__'', Object),
      (''os'', Object), (''pytesseract'', Object), (''convert_from_path'', Object),
      (''RecursiveCharacterTextSplitter'', Object), (''OpenAIEmbeddings'', Object),
      (''OpenAI'', Object), (''FAISS'', Object), (''RetrievalQA'', Object),
      (''PdfReader'', Object), (''Document'', Object), (''load_dotenv'', Object),
      (''Flask'', Object), (''request'', Object), (''render_template'', Object),
      (''jsonify'', Object),
      (''openai_api_key'', Value (getenv_openai_api_key env)),
      (''extract_text_from_pdf'', Object), (''extract_text_from_docx'', Object),
      (''data_folder'', Value (PyStr (data_folder env))),
      (''all_text'', Object), (''filename'', Object), (''file_path'', Object),
      (''extracted_text'', Object), (''full_text'', Object), (''splitter'', Object),
      (''chunks'', Object), (''embedding_model'', Object), (''vector_db'', Object),
      (''llm'', Object), (''retriever'', Object), (''qa_chain'', Object),
      (''handle_user_input'', Object), (''app'', Object), (''index'', Object),
      (''exit_app'', Object)]"

text \<open>Lines 119--120: the guard reads the name \<open>_name_\<close>.\<close>

definition main_guard :: "env \<Rightarrow> unit io" where
  "main_guard env =
     (case map_of (module_namespace env) ''_name_'' of
        None \<Rightarrow>
          io_raise (NameError (lit ''name '' @ [39] @ lit ''_name_'' @ [39]
                      @ lit '' is not defined''))
      | Some v \<Rightarrow>
          if v = Value (PyStr (lit ''__main__'')) then io_call AppRun (Inr ())
          else io_return ())"

text \<open>The whole module, executed from its first line to its last.\<close>

definition run_module :: "env \<Rightarrow> unit io" where
  "run_module env =
     io_bind (load_api_key env) (\<lambda>openai_api_key.
     io_bind (load_documents env) (\<lambda>full_text.
     io_bind (build_index env openai_api_key full_text) (\<lambda>_.
     main_guard env)))"

section \<open>Request handlers\<close>

text \<open>Lines 89--96.\<close>

definition apology :: pystr where
  "apology = lit ''I'' @ [39] @ lit ''m sorry, I couldn'' @ [39]
     @ lit ''t find an answer to that question.''"

definition translation_prompt :: "pyval \<Rightarrow> pystr" where
  "translation_prompt hindi_response =
     lit ''Translate the following Hindi text to English:'' @ newline @ newline
     @ py_format hindi_response @ newline @ newline
     @ lit ''Provide a natural English answer.''"

definition handle_user_input :: "env \<Rightarrow> pyval \<Rightarrow> pyval io" where
  "handle_user_input env user_query =
     io_bind (io_call (QaChainRun user_query) (qa_chain_run env user_query))
       (\<lambda>hindi_response.
     if \<not> truthy hindi_response then io_return (PyStr apology)
     else
       io_bind (io_call (LlmInvoke (translation_prompt hindi_response))
                  (llm_invoke env (translation_prompt hindi_response)))
         (\<lambda>english_response.
       io_return (if truthy english_response then english_response
                  else PyStr (lit ''Translation failed.''))))"

text \<open>
  A request as the handlers read it: the method, the form fields and the query
  parameters.  \<open>dict_get\<close> is \<open>.get(key, default)\<close>; \<open>form.get(key)\<close> has the default
  \<open>None\<close>.
\<close>

record request =
  req_method :: pystr
  form :: "pystr \<rightharpoonup> pystr"
  args :: "pystr \<rightharpoonup> pystr"

definition dict_get :: "(pystr \<rightharpoonup> pystr) \<Rightarrow> pystr \<Rightarrow> pyval \<Rightarrow> pyval" where
  "dict_get d k dflt = (case d k of None \<Rightarrow> dflt | Some v \<Rightarrow> PyStr v)"

text \<open>
  What a handler returns: the template name and keyword arguments handed to
  \<open>render_template\<close>, or the dictionary handed to \<open>jsonify\<close>.
\<close>

datatype response =
    RenderTemplate pystr "(string \<times> pyval) list"
  | Jsonify "(pystr \<times> pystr) list"

definition initial_greeting :: pystr where
  "initial_greeting =
     [0x1F916] @ lit '' Hello! I am your AI assistant. Please provide your details to begin.''"

definition welcome_greeting :: "pyval \<Rightarrow> pystr" where
  "welcome_greeting user_name =
     [0x1F916] @ lit '' Welcome, '' @ py_format user_name @ lit ''! '' @ [0x1F389]
     @ lit '' I am here to assist you with queries from my trained knowledge.''"

text \<open>Lines 101--111.\<close>

definition index :: "env \<Rightarrow> request \<Rightarrow> response io" where
  "index env request =
     (if req_method request = lit ''POST'' then
        (let user_name = dict_get (form request) (lit ''name'') PyNone;
             user_dob = dict_get (form request) (lit ''dob'') PyNone;
             query = dict_get (form request) (lit ''question'') PyNone
         in if truthy user_name \<and> truthy user_dob \<and> truthy query then
              io_bind (handle_user_input env query) (\<lambda>response.
              io_return (RenderTemplate (lit ''index.html'')
                [(''greeting'', PyStr (welcome_greeting user_name)),
                 (''response'', response),
                 (''name'', user_name),
                 (''dob'', user_dob)]))
            else
              io_return (RenderTemplate (lit ''index.html'')
                [(''greeting'', PyStr initial_greeting)]))
      else
        io_return (RenderTemplate (lit ''index.html'')
          [(''greeting'', PyStr initial_greeting)]))"

text \<open>Lines 113--117.\<close>

definition exit_app :: "request \<Rightarrow> response io" where
  "exit_app request =
     (let name = dict_get (args request) (lit ''name'') (PyStr (lit ''friend''));
          farewell = [0x1F44B] @ lit '' Bye, '' @ py_format name
                       @ lit ''! Have a great day! '' @ [0x1F60A]
      in io_return (Jsonify [(lit ''farewell'', farewell)]))"

section \<open>Notions the properties are stated with\<close>

text \<open>
  A page gives no direct text when \<open>extract_text()\<close> returns only white space (or nothing);
  a PDF file has no direct text when its reader opens and every page is such a page.
\<close>

definition page_blank :: "error + pystr \<Rightarrow> bool" where
  "page_blank page =
     (case page of Inl _ \<Rightarrow> False | Inr page_text \<Rightarrow> list_all py_isspace page_text)"

definition no_direct_text :: "pdf_file \<Rightarrow> bool" where
  "no_direct_text f =
     (case pdf_pages f of Inl _ \<Rightarrow> False | Inr pages \<Rightarrow> list_all page_blank pages)"

text \<open>The text the loop of lines 28--31 accumulates when no page raises.\<close>

definition direct_text :: "(error + pystr) list \<Rightarrow> pystr" where
  "direct_text pages =
     concat (map (\<lambda>page. if projr page \<noteq> [] then projr page @ newline else []) pages)"

text \<open>The text the loop of lines 35--36 appends when no image raises.\<close>

definition ocr_text :: "(error + pystr) list \<Rightarrow> pystr" where
  "ocr_text images = concat (map (\<lambda>img. projr img @ newline) images)"

text \<open>
  What the body of the load loop obtains for one directory entry: the outcome of the
  extractor its suffix selects.  An entry with neither suffix is not read and adds no
  text.
\<close>

definition extracted :: "env \<Rightarrow> pystr \<Rightarrow> error + pystr" where
  "extracted env filename =
     (if py_endswith filename (lit ''.pdf'') then
        fst (extract_text_from_pdf (pdf_at env) (path_join env (data_folder env) filename))
      else if py_endswith filename (lit ''.docx'') then
        fst (extract_text_from_docx (docx_at env) (path_join env (data_folder env) filename))
      else Inr [])"

text \<open>The calls of the pipeline stages that follow the document loader (lines 72--120).\<close>

fun later_stage :: "event \<Rightarrow> bool" where
  "later_stage (SplitText _ _ _) = True"
| "later_stage (NewOpenAIEmbeddings _) = True"
| "later_stage (FaissFromTexts _) = True"
| "later_stage (NewOpenAI _) = True"
| "later_stage AsRetriever = True"
| "later_stage RetrievalQAFromChainType = True"
| "later_stage (NewFlask _) = True"
| "later_stage AppRun = True"
| "later_stage _ = False"

subsection \<open>A sample deployment\<close>

text \<open>
  A document folder with a scanned PDF (no direct text, OCR finds some), a text file, a
  DOCX file and a PDF without any text; \<open>report.pdf\<close> has direct text and \<open>bad.pdf\<close> is
  one that pypdf cannot open.
\<close>

definition sample_pdf :: "pystr \<Rightarrow> pdf_file" where
  "sample_pdf pdf_path =
     (if pdf_path = lit ''docs/scan.pdf'' then
        \<lparr>pdf_pages = Inr [Inr [], Inr (lit '' '')], pdf_ocr = Inr [Inr (lit ''namaste '')]\<rparr>
      else if pdf_path = lit ''docs/report.pdf'' then
        \<lparr>pdf_pages = Inr [Inr (lit ''page one''), Inr []], pdf_ocr = Inr []\<rparr>
      else if pdf_path = lit ''docs/bad.pdf'' then
        \<lparr>pdf_pages = Inl (LibraryError (lit ''EOF marker not found'')), pdf_ocr = Inr []\<rparr>
      else \<lparr>pdf_pages = Inr [], pdf_ocr = Inr []\<rparr>)"

definition sample_docx :: "pystr \<Rightarrow> error + pystr list" where
  "sample_docx docx_path =
     (if docx_path = lit ''docs/policy.docx'' then
        Inr [lit ''rule one'', lit ''  '', lit ''rule two'']
      else Inr [])"

definition sample_env :: env where
  "sample_env =
     \<lparr>getenv_openai_api_key = PyStr (lit ''sk-test''),
      data_folder = lit ''docs'',
      path_exists = True,
      listdir = Inr [lit ''scan.pdf'', lit ''notes.txt'', lit ''policy.docx'', lit ''blank.pdf''],
      path_join = (\<lambda>a b. a @ lit ''/'' @ b),
      pdf_at = sample_pdf,
      docx_at = sample_docx,
      split_text = (\<lambda>chunk_size chunk_overlap t. Inr [t]),
      faiss_from_texts = (\<lambda>chunks. Inr ()),
      qa_chain_run =
        (\<lambda>q. if q = PyStr (lit ''unknown'') then Inr (PyStr []) else Inr (PyStr (lit ''uttar''))),
      llm_invoke =
        (\<lambda>p. if p = translation_prompt (PyStr (lit ''uttar'')) then Inr (PyStr (lit ''answer''))
             else Inr (PyStr [])),
      module_dunder_name = lit ''__main__''\<rparr>"

definition sample_request :: "(pystr \<rightharpoonup> pystr) \<Rightarrow> (pystr \<rightharpoonup> pystr) \<Rightarrow> request" where
  "sample_request f a = \<lparr>req_method = lit ''POST'', form = f, args = a\<rparr>"

section \<open>Laws of the trace-carrying computations\<close>

lemma io_bind_return [simp]: "io_bind (io_return x) f = f x"
  by (simp add: io_bind_def io_return_def split: prod.splits)

lemma io_bind_raise [simp]: "io_bind (io_raise e) f = io_raise e"
  by (simp add: io_bind_def io_raise_def)

lemma io_bind_call_Inl [simp]: "io_bind (io_call ev (Inl e)) f = (Inl e, [ev])"
  by (simp add: io_bind_def io_call_def)

lemma io_bind_call_Inr [simp]:
  "io_bind (io_call ev (Inr x)) f = (fst (f x), ev # snd (f x))"
  by (simp add: io_bind_def io_call_def split: prod.splits)

lemma io_bind_print [simp]:
  "io_bind (io_print s) f = (fst (f ()), Print s # snd (f ()))"
  by (simp add: io_bind_def io_print_def split: prod.splits)

lemma fst_io_return [simp]: "fst (io_return x) = Inr x"
  by (simp add: io_return_def)

lemma snd_io_return [simp]: "snd (io_return x) = []"
  by (simp add: io_return_def)

lemma fst_io_raise [simp]: "fst (io_raise e) = Inl e"
  by (simp add: io_raise_def)

lemma snd_io_raise [simp]: "snd (io_raise e) = []"
  by (simp add: io_raise_def)

lemma fst_io_bind:
  "fst (io_bind m f) = (case fst m of Inl e \<Rightarrow> Inl e | Inr x \<Rightarrow> fst (f x))"
  by (cases m) (simp add: io_bind_def split: sum.splits prod.splits)

lemma snd_io_bind:
  "snd (io_bind m f) = (case fst m of Inl e \<Rightarrow> snd m | Inr x \<Rightarrow> snd m @ snd (f x))"
  by (cases m) (simp add: io_bind_def split: sum.splits prod.splits)

lemma io_bind_Inl [simp]: "io_bind (Inl e, tr) f = (Inl e, tr)"
  by (simp add: io_bind_def)

lemma io_bind_Inr [simp]: "io_bind (Inr x, tr) f = (fst (f x), tr @ snd (f x))"
  by (simp add: io_bind_def split: prod.splits)

lemma sublist_mid: "sublist n (pre @ n @ post)"
  unfolding sublist_def by blast

section \<open>PDF extraction\<close>

lemma list_all_dropWhile: "list_all P (dropWhile P s) \<longleftrightarrow> list_all P s"
  by (induction s) simp_all

lemma py_strip_empty_iff: "py_strip s = [] \<longleftrightarrow> list_all py_isspace s"
  by (simp add: py_strip_def list_all_dropWhile flip: list_all_iff)

lemma py_isspace_newline: "list_all py_isspace newline"
  by (simp add: newline_def py_isspace_def)

lemma pages_loop_ok:
  "list_all (\<lambda>page. \<not> isl page) pages \<Longrightarrow>
   pages_loop pages t = (Inr (t @ direct_text pages), replicate (length pages) PageExtractText)"
proof (induction pages arbitrary: t)
  case Nil
  then show ?case by (simp add: io_return_def direct_text_def)
next
  case (Cons page pages)
  then obtain page_text where "page = Inr page_text" by (cases page) auto
  with Cons show ?case by (simp add: direct_text_def)
qed

lemma pages_loop_raise:
  "\<not> list_all (\<lambda>page. \<not> isl page) pages \<Longrightarrow>
   \<exists>e n. pages_loop pages t = (Inl e, replicate n PageExtractText)"
proof (induction pages arbitrary: t)
  case Nil
  then show ?case by simp
next
  case (Cons page pages)
  show ?case
  proof (cases page)
    case (Inl e)
    have "pages_loop (page # pages) t = (Inl e, replicate 1 PageExtractText)"
      using Inl by simp
    then show ?thesis by blast
  next
    case (Inr page_text)
    with Cons.prems have "\<not> list_all (\<lambda>page. \<not> isl page) pages" by simp
    from Cons.IH [OF this] obtain e n where
      "pages_loop pages (if page_text \<noteq> [] then t @ page_text @ newline else t)
         = (Inl e, replicate n PageExtractText)" by blast
    with Inr have "pages_loop (page # pages) t = (Inl e, replicate (Suc n) PageExtractText)"
      by simp
    then show ?thesis by blast
  qed
qed

lemma images_loop_events:
  "set (snd (images_loop images t)) \<subseteq> {ImageToString (lit ''hin'')}"
proof (induction images arbitrary: t)
  case Nil
  then show ?case by simp
next
  case (Cons img images)
  show ?case
  proof (cases img)
    case (Inl e)
    then show ?thesis by simp
  next
    case (Inr ocr_text)
    with Cons.IH [of "t @ ocr_text @ newline"] show ?thesis by simp
  qed
qed

lemma direct_text_blank:
  "list_all (\<lambda>page. \<not> isl page) pages \<Longrightarrow>
   list_all py_isspace (direct_text pages) \<longleftrightarrow> list_all page_blank pages"
proof (induction pages)
  case Nil
  then show ?case by (simp add: direct_text_def)
next
  case (Cons page pages)
  then obtain page_text where "page = Inr page_text" by (cases page) auto
  with Cons py_isspace_newline show ?case by (auto simp: page_blank_def direct_text_def)
qed

lemma page_blank_not_raised: "list_all page_blank pages \<Longrightarrow> list_all (\<lambda>page. \<not> isl page) pages"
  by (induction pages) (auto simp: page_blank_def split: sum.splits)

lemma pdf_reader_raises:
  "pdf_pages (pdf_files pdf_path) = Inl e \<Longrightarrow>
   extract_text_from_pdf pdf_files pdf_path = (Inl e, [PdfReaderOpen pdf_path])"
  by (simp add: extract_text_from_pdf_def)

lemma pdf_page_raises:
  assumes "pdf_pages (pdf_files pdf_path) = Inr pages"
    and "\<not> list_all (\<lambda>page. \<not> isl page) pages"
  shows "\<exists>e n. extract_text_from_pdf pdf_files pdf_path =
           (Inl e, PdfReaderOpen pdf_path # replicate n PageExtractText)"
proof -
  from pages_loop_raise [OF assms(2), of "[]"] obtain e n where
    "pages_loop pages [] = (Inl e, replicate n PageExtractText)" by blast
  with assms(1) have "extract_text_from_pdf pdf_files pdf_path =
           (Inl e, PdfReaderOpen pdf_path # replicate n PageExtractText)"
    by (simp add: extract_text_from_pdf_def)
  then show ?thesis by blast
qed

lemma pdf_direct_text:
  assumes "pdf_pages (pdf_files pdf_path) = Inr pages"
    and "list_all (\<lambda>page. \<not> isl page) pages"
    and "\<not> list_all page_blank pages"
  shows "extract_text_from_pdf pdf_files pdf_path =
           (Inr (py_strip (direct_text pages)),
            PdfReaderOpen pdf_path # replicate (length pages) PageExtractText)"
proof -
  have "py_strip (direct_text pages) \<noteq> []"
    using assms(2,3) by (simp add: py_strip_empty_iff direct_text_blank)
  with assms(1) pages_loop_ok [OF assms(2), of "[]"] show ?thesis
    by (simp add: extract_text_from_pdf_def)
qed

lemma pdf_ocr_fallback:
  assumes "pdf_pages (pdf_files pdf_path) = Inr pages"
    and "list_all page_blank pages"
  shows "\<exists>ocr. snd (extract_text_from_pdf pdf_files pdf_path) =
           PdfReaderOpen pdf_path # replicate (length pages) PageExtractText
             @ Print (ocr_message pdf_path) # ConvertFromPath pdf_path # ocr
           \<and> set ocr \<subseteq> {ImageToString (lit ''hin'')}"
proof -
  have ok: "list_all (\<lambda>page. \<not> isl page) pages"
    using assms(2) by (rule page_blank_not_raised)
  have blank: "py_strip (direct_text pages) = []"
    using assms(2) ok by (simp add: py_strip_empty_iff direct_text_blank)
  show ?thesis
  proof (cases "pdf_ocr (pdf_files pdf_path)")
    case (Inl e)
    with assms(1) blank pages_loop_ok [OF ok, of "[]"]
    have "snd (extract_text_from_pdf pdf_files pdf_path) =
           PdfReaderOpen pdf_path # replicate (length pages) PageExtractText
             @ Print (ocr_message pdf_path) # ConvertFromPath pdf_path # []"
      by (simp add: extract_text_from_pdf_def)
    then show ?thesis by simp
  next
    case (Inr images)
    with assms(1) blank pages_loop_ok [OF ok, of "[]"]
    have "snd (extract_text_from_pdf pdf_files pdf_path) =
           PdfReaderOpen pdf_path # replicate (length pages) PageExtractText
             @ Print (ocr_message pdf_path) # ConvertFromPath pdf_path
             # snd (images_loop images (direct_text pages))"
      by (simp add: extract_text_from_pdf_def snd_io_bind split: sum.splits)
    with images_loop_events [of images "direct_text pages"] show ?thesis by blast
  qed
qed

lemma images_loop_ok:
  "list_all (\<lambda>img. \<not> isl img) images \<Longrightarrow>
   images_loop images t =
     (Inr (t @ ocr_text images), replicate (length images) (ImageToString (lit ''hin'')))"
proof (induction images arbitrary: t)
  case Nil
  then show ?case by (simp add: io_return_def ocr_text_def)
next
  case (Cons img images)
  then obtain ocr where "img = Inr ocr" by (cases img) auto
  with Cons show ?case by (simp add: ocr_text_def)
qed

lemma images_loop_raise:
  "list_all (\<lambda>img. \<not> isl img) before \<Longrightarrow>
   images_loop (before @ Inl e # rest) t =
     (Inl e, replicate (Suc (length before)) (ImageToString (lit ''hin'')))"
proof (induction before arbitrary: t)
  case Nil
  then show ?case by simp
next
  case (Cons img before)
  then obtain ocr where "img = Inr ocr" by (cases img) auto
  with Cons show ?case by simp
qed

lemma pdf_ocr_outcome:
  assumes "pdf_pages (pdf_files pdf_path) = Inr pages"
    and "list_all page_blank pages"
  shows "extract_text_from_pdf pdf_files pdf_path =
           (case pdf_ocr (pdf_files pdf_path) of
              Inl e \<Rightarrow> (Inl e, PdfReaderOpen pdf_path # replicate (length pages) PageExtractText
                           @ [Print (ocr_message pdf_path), ConvertFromPath pdf_path])
            | Inr images \<Rightarrow>
                (case fst (images_loop images (direct_text pages)) of
                   Inl e \<Rightarrow> Inl e | Inr t \<Rightarrow> Inr (py_strip t),
                 PdfReaderOpen pdf_path # replicate (length pages) PageExtractText
                   @ [Print (ocr_message pdf_path), ConvertFromPath pdf_path]
                   @ snd (images_loop images (direct_text pages))))"
proof -
  have ok: "list_all (\<lambda>page. \<not> isl page) pages"
    using assms(2) by (rule page_blank_not_raised)
  have blank: "py_strip (direct_text pages) = []"
    using assms(2) ok by (simp add: py_strip_empty_iff direct_text_blank)
  show ?thesis
    using assms(1) blank pages_loop_ok [OF ok, of "[]"]
    by (cases "pdf_ocr (pdf_files pdf_path)")
       (simp_all add: extract_text_from_pdf_def fst_io_bind snd_io_bind split: sum.splits)
qed

lemma pdf_direct_case:
  "pdf_pages (pdf_files pdf_path) = Inr pages \<and> list_all (\<lambda>page. \<not> isl page) pages
        \<and> \<not> list_all page_blank pages \<longrightarrow>
      extract_text_from_pdf pdf_files pdf_path =
        (Inr (py_strip (direct_text pages)),
         PdfReaderOpen pdf_path # replicate (length pages) PageExtractText)"
  using pdf_direct_text [of pdf_files pdf_path pages] by blast

lemma pdf_convert_raises:
  "pdf_pages (pdf_files pdf_path) = Inr pages \<and> list_all page_blank pages
        \<and> pdf_ocr (pdf_files pdf_path) = Inl e \<longrightarrow>
      extract_text_from_pdf pdf_files pdf_path =
        (Inl e,
         PdfReaderOpen pdf_path # replicate (length pages) PageExtractText
           @ [Print (ocr_message pdf_path), ConvertFromPath pdf_path])"
  using pdf_ocr_outcome [of pdf_files pdf_path pages] by simp

lemma pdf_ocr_all_images:
  "pdf_pages (pdf_files pdf_path) = Inr pages \<and> list_all page_blank pages
        \<and> pdf_ocr (pdf_files pdf_path) = Inr images
        \<and> list_all (\<lambda>img. \<not> isl img) images \<longrightarrow>
      extract_text_from_pdf pdf_files pdf_path =
        (Inr (py_strip (direct_text pages @ ocr_text images)),
         PdfReaderOpen pdf_path # replicate (length pages) PageExtractText
           @ [Print (ocr_message pdf_path), ConvertFromPath pdf_path]
           @ replicate (length images) (ImageToString (lit ''hin'')))"
  using pdf_ocr_outcome [of pdf_files pdf_path pages]
    images_loop_ok [of images "direct_text pages"] by simp

lemma pdf_ocr_image_raises:
  "pdf_pages (pdf_files pdf_path) = Inr pages \<and> list_all page_blank pages
        \<and> pdf_ocr (pdf_files pdf_path) = Inr (before @ Inl e # rest)
        \<and> list_all (\<lambda>img. \<not> isl img) before \<longrightarrow>
      extract_text_from_pdf pdf_files pdf_path =
        (Inl e,
         PdfReaderOpen pdf_path # replicate (length pages) PageExtractText
           @ [Print (ocr_message pdf_path), ConvertFromPath pdf_path]
           @ replicate (Suc (length before)) (ImageToString (lit ''hin'')))"
  using pdf_ocr_outcome [of pdf_files pdf_path pages]
    images_loop_raise [of before e rest "direct_text pages"] by simp

lemma pages_loop_raise_at:
  "list_all (\<lambda>page. \<not> isl page) before \<Longrightarrow>
   pages_loop (before @ Inl e # rest) t =
     (Inl e, replicate (Suc (length before)) PageExtractText)"
proof (induction before arbitrary: t)
  case Nil
  then show ?case by simp
next
  case (Cons page before)
  then obtain page_text where "page = Inr page_text" by (cases page) auto
  with Cons show ?case by simp
qed

lemma pdf_reader_raises_case:
  "pdf_pages (pdf_files pdf_path) = Inl e \<longrightarrow>
   extract_text_from_pdf pdf_files pdf_path = (Inl e, [PdfReaderOpen pdf_path])"
  using pdf_reader_raises [of pdf_files pdf_path e] by blast

lemma pdf_page_raises_case:
  "pdf_pages (pdf_files pdf_path) = Inr (before @ Inl e # rest)
     \<and> list_all (\<lambda>page. \<not> isl page) before \<longrightarrow>
   extract_text_from_pdf pdf_files pdf_path =
     (Inl e, PdfReaderOpen pdf_path # replicate (Suc (length before)) PageExtractText)"
  using pages_loop_raise_at [of before e rest "[]"]
  by (simp add: extract_text_from_pdf_def)

lemma ocr_call_iff:
  "(ConvertFromPath pdf_path \<in> set (snd (extract_text_from_pdf pdf_files pdf_path))
      \<longleftrightarrow> no_direct_text (pdf_files pdf_path))
   \<and> (ImageToString (lit ''hin'') \<in> set (snd (extract_text_from_pdf pdf_files pdf_path))
      \<longrightarrow> no_direct_text (pdf_files pdf_path))
   \<and> (\<exists>tr. snd (extract_text_from_pdf pdf_files pdf_path) = PdfReaderOpen pdf_path # tr)
   \<and> (no_direct_text (pdf_files pdf_path) \<longrightarrow>
        (\<exists>pages ocr. pdf_pages (pdf_files pdf_path) = Inr pages
           \<and> snd (extract_text_from_pdf pdf_files pdf_path) =
               PdfReaderOpen pdf_path # replicate (length pages) PageExtractText
                 @ Print (ocr_message pdf_path) # ConvertFromPath pdf_path # ocr
           \<and> set ocr \<subseteq> {ImageToString (lit ''hin'')}))"
proof (cases "pdf_pages (pdf_files pdf_path)")
  case (Inl e)
  from pdf_reader_raises [of pdf_files pdf_path e] Inl show ?thesis
    by (simp add: no_direct_text_def)
next
  case (Inr pages)
  show ?thesis
  proof (cases "list_all (\<lambda>page. \<not> isl page) pages")
    case False
    with page_blank_not_raised [of pages] have nb: "\<not> list_all page_blank pages" by blast
    from pdf_page_raises [of pdf_files pdf_path pages, OF Inr False] obtain e n where
      "extract_text_from_pdf pdf_files pdf_path =
           (Inl e, PdfReaderOpen pdf_path # replicate n PageExtractText)" by blast
    with Inr nb show ?thesis by (simp add: no_direct_text_def)
  next
    case True
    show ?thesis
    proof (cases "list_all page_blank pages")
      case False
      from pdf_direct_text [of pdf_files pdf_path pages, OF Inr True False] Inr False show ?thesis
        by (simp add: no_direct_text_def)
    next
      case blank: True
      from pdf_ocr_fallback [of pdf_files pdf_path pages, OF Inr blank] obtain ocr where
        tr: "snd (extract_text_from_pdf pdf_files pdf_path) =
           PdfReaderOpen pdf_path # replicate (length pages) PageExtractText
             @ Print (ocr_message pdf_path) # ConvertFromPath pdf_path # ocr"
        and ocr: "set ocr \<subseteq> {ImageToString (lit ''hin'')}" by blast
      have ndt: "no_direct_text (pdf_files pdf_path)"
        using Inr blank by (simp add: no_direct_text_def)
      have "ConvertFromPath pdf_path \<in> set (snd (extract_text_from_pdf pdf_files pdf_path))"
        using tr by simp
      with ndt tr ocr Inr show ?thesis by blast
    qed
  qed
qed

text \<open>
  C8.  For every PDF file, \<open>extract_text_from_pdf\<close> first opens the reader and asks every
  page for its direct text.  The OCR fallback is invoked if and only if the file has no
  direct text, that is, every page yields only white space or nothing; when it is invoked,
  every page has been asked before.  When some page yields text that is not white space,
  no OCR call is made and the stripped direct text is returned.  The fallback itself is
  \<open>convert_from_path\<close> followed by one \<open>image_to_string\<close> call with \<open>lang="hin"\<close> per page
  image, in order: when all succeed the result is the stripped text of the pages followed
  by the OCR output of every image, each with a newline; when rasterizing raises, no OCR
  call is made, and when the OCR of an image raises, no later image is read, and the
  exception is the result.  When the reader or the direct extraction of a page raises,
  nothing further is called and that exception is the result.
\<close>

theorem ocr_iff_no_direct_text:
  "(ConvertFromPath pdf_path \<in> set (snd (extract_text_from_pdf pdf_files pdf_path))
      \<longleftrightarrow> no_direct_text (pdf_files pdf_path))
   \<and> (ImageToString (lit ''hin'') \<in> set (snd (extract_text_from_pdf pdf_files pdf_path))
      \<longrightarrow> no_direct_text (pdf_files pdf_path))
   \<and> (\<exists>tr. snd (extract_text_from_pdf pdf_files pdf_path) = PdfReaderOpen pdf_path # tr)
   \<and> (no_direct_text (pdf_files pdf_path) \<longrightarrow>
        (\<exists>pages ocr. pdf_pages (pdf_files pdf_path) = Inr pages
           \<and> snd (extract_text_from_pdf pdf_files pdf_path) =
               PdfReaderOpen pdf_path # replicate (length pages) PageExtractText
                 @ Print (ocr_message pdf_path) # ConvertFromPath pdf_path # ocr
           \<and> set ocr \<subseteq> {ImageToString (lit ''hin'')}))
   \<and> (pdf_pages (pdf_files pdf_path) = Inr pages \<and> list_all (\<lambda>page. \<not> isl page) pages
        \<and> \<not> list_all page_blank pages \<longrightarrow>
      extract_text_from_pdf pdf_files pdf_path =
        (Inr (py_strip (direct_text pages)),
         PdfReaderOpen pdf_path # replicate (length pages) PageExtractText))
   \<and> (pdf_pages (pdf_files pdf_path) = Inr pages \<and> list_all page_blank pages
        \<and> pdf_ocr (pdf_files pdf_path) = Inl e \<longrightarrow>
      extract_text_from_pdf pdf_files pdf_path =
        (Inl e,
         PdfReaderOpen pdf_path # replicate (length pages) PageExtractText
           @ [Print (ocr_message pdf_path), ConvertFromPath pdf_path]))
   \<and> (pdf_pages (pdf_files pdf_path) = Inr pages \<and> list_all page_blank pages
        \<and> pdf_ocr (pdf_files pdf_path) = Inr images
        \<and> list_all (\<lambda>img. \<not> isl img) images \<longrightarrow>
      extract_text_from_pdf pdf_files pdf_path =
        (Inr (py_strip (direct_text pages @ ocr_text images)),
         PdfReaderOpen pdf_path # replicate (length pages) PageExtractText
           @ [Print (ocr_message pdf_path), ConvertFromPath pdf_path]
           @ replicate (length images) (ImageToString (lit ''hin''))))
   \<and> (pdf_pages (pdf_files pdf_path) = Inr pages \<and> list_all page_blank pages
        \<and> pdf_ocr (pdf_files pdf_path) = Inr (before @ Inl e # rest)
        \<and> list_all (\<lambda>img. \<not> isl img) before \<longrightarrow>
      extract_text_from_pdf pdf_files pdf_path =
        (Inl e,
         PdfReaderOpen pdf_path # replicate (length pages) PageExtractText
           @ [Print (ocr_message pdf_path), ConvertFromPath pdf_path]
           @ replicate (Suc (length before)) (ImageToString (lit ''hin''))))
   \<and> (pdf_pages (pdf_files pdf_path) = Inl e \<longrightarrow>
      extract_text_from_pdf pdf_files pdf_path = (Inl e, [PdfReaderOpen pdf_path]))
   \<and> (pdf_pages (pdf_files pdf_path) = Inr (pages_before @ Inl e # pages_rest)
        \<and> list_all (\<lambda>page. \<not> isl page) pages_before \<longrightarrow>
      extract_text_from_pdf pdf_files pdf_path =
        (Inl e,
         PdfReaderOpen pdf_path # replicate (Suc (length pages_before)) PageExtractText))"
  using ocr_call_iff [of pdf_path pdf_files]
    pdf_direct_case [of pdf_files pdf_path pages]
    pdf_convert_raises [of pdf_files pdf_path pages e]
    pdf_ocr_all_images [of pdf_files pdf_path pages images]
    pdf_ocr_image_raises [of pdf_files pdf_path pages before e rest]
    pdf_reader_raises_case [of pdf_files pdf_path e]
    pdf_page_raises_case [of pdf_files pdf_path pages_before e pages_rest]
  by blast

lemmas pdf_eval = sample_pdf_def page_blank_def direct_text_def ocr_text_def ocr_message_def
  py_strip_def py_isspace_def lit_def newline_def

text \<open>
  In the sample deployment a scanned PDF goes to OCR and comes back with the text Tesseract
  read, and a PDF with direct text does not; then a file whose rasterizing fails, one
  whose second page image fails in OCR, one the reader cannot open, and one whose second
  page fails in direct extraction.
\<close>

theorem ocr_iff_no_direct_text_witness:
  "no_direct_text (sample_pdf (lit ''docs/scan.pdf''))
   \<and> ConvertFromPath (lit ''docs/scan.pdf'')
       \<in> set (snd (extract_text_from_pdf sample_pdf (lit ''docs/scan.pdf'')))
   \<and> \<not> no_direct_text (sample_pdf (lit ''docs/report.pdf''))
   \<and> ConvertFromPath (lit ''docs/report.pdf'')
       \<notin> set (snd (extract_text_from_pdf sample_pdf (lit ''docs/report.pdf'')))
   \<and> extract_text_from_pdf sample_pdf (lit ''docs/scan.pdf'') =
     (Inr (lit ''namaste''),
      [PdfReaderOpen (lit ''docs/scan.pdf''), PageExtractText, PageExtractText,
       Print (ocr_message (lit ''docs/scan.pdf'')), ConvertFromPath (lit ''docs/scan.pdf''),
       ImageToString (lit ''hin'')])
   \<and> extract_text_from_pdf sample_pdf (lit ''docs/report.pdf'') =
     (Inr (lit ''page one''),
      [PdfReaderOpen (lit ''docs/report.pdf''), PageExtractText, PageExtractText])
   \<and> extract_text_from_pdf
       (\<lambda>p. \<lparr>pdf_pages = Inr [Inr []], pdf_ocr = Inl (LibraryError (lit ''poppler missing''))\<rparr>)
       (lit ''a.pdf'') =
     (Inl (LibraryError (lit ''poppler missing'')),
      [PdfReaderOpen (lit ''a.pdf''), PageExtractText,
       Print (ocr_message (lit ''a.pdf'')), ConvertFromPath (lit ''a.pdf'')])
   \<and> extract_text_from_pdf
       (\<lambda>p. \<lparr>pdf_pages = Inr [],
              pdf_ocr = Inr [Inr (lit ''ek''), Inl (LibraryError (lit ''tesseract missing'')),
                             Inr (lit ''do'')]\<rparr>)
       (lit ''a.pdf'') =
     (Inl (LibraryError (lit ''tesseract missing'')),
      [PdfReaderOpen (lit ''a.pdf''),
       Print (ocr_message (lit ''a.pdf'')), ConvertFromPath (lit ''a.pdf''),
       ImageToString (lit ''hin''), ImageToString (lit ''hin'')])
   \<and> extract_text_from_pdf sample_pdf (lit ''docs/bad.pdf'') =
     (Inl (LibraryError (lit ''EOF marker not found'')), [PdfReaderOpen (lit ''docs/bad.pdf'')])
   \<and> extract_text_from_pdf
       (\<lambda>p. \<lparr>pdf_pages = Inr [Inr (lit ''ek''), Inl (LibraryError (lit ''bad stream'')), Inr []],
              pdf_ocr = Inr []\<rparr>)
       (lit ''a.pdf'') =
     (Inl (LibraryError (lit ''bad stream'')),
      [PdfReaderOpen (lit ''a.pdf''), PageExtractText, PageExtractText])"
proof -
  have scan: "no_direct_text (sample_pdf (lit ''docs/scan.pdf''))"
    by (simp add: no_direct_text_def sample_pdf_def page_blank_def lit_def py_isspace_def)
  have report: "\<not> no_direct_text (sample_pdf (lit ''docs/report.pdf''))"
    by (simp add: no_direct_text_def sample_pdf_def page_blank_def lit_def py_isspace_def)
  from scan report
    ocr_iff_no_direct_text [of "lit ''docs/scan.pdf''" sample_pdf]
    ocr_iff_no_direct_text [of "lit ''docs/report.pdf''" sample_pdf]
  have w0: "no_direct_text (sample_pdf (lit ''docs/scan.pdf''))
   \<and> ConvertFromPath (lit ''docs/scan.pdf'')
       \<in> set (snd (extract_text_from_pdf sample_pdf (lit ''docs/scan.pdf'')))
   \<and> \<not> no_direct_text (sample_pdf (lit ''docs/report.pdf''))
   \<and> ConvertFromPath (lit ''docs/report.pdf'')
       \<notin> set (snd (extract_text_from_pdf sample_pdf (lit ''docs/report.pdf'')))"
    by blast
  have w1: "extract_text_from_pdf sample_pdf (lit ''docs/scan.pdf'') =
     (Inr (lit ''namaste''),
      [PdfReaderOpen (lit ''docs/scan.pdf''), PageExtractText, PageExtractText,
       Print (ocr_message (lit ''docs/scan.pdf'')), ConvertFromPath (lit ''docs/scan.pdf''),
       ImageToString (lit ''hin'')])"
    using ocr_iff_no_direct_text [where pdf_files = sample_pdf and pdf_path = "lit ''docs/scan.pdf''"
        and pages = "[Inr [], Inr (lit '' '')]" and images = "[Inr (lit ''namaste '')]"]
    by (simp add: pdf_eval)
  have w2: "extract_text_from_pdf sample_pdf (lit ''docs/report.pdf'') =
     (Inr (lit ''page one''),
      [PdfReaderOpen (lit ''docs/report.pdf''), PageExtractText, PageExtractText])"
    using ocr_iff_no_direct_text [where pdf_files = sample_pdf and pdf_path = "lit ''docs/report.pdf''"
        and pages = "[Inr (lit ''page one''), Inr []]"]
    by (simp add: pdf_eval)
  have w3: "extract_text_from_pdf
       (\<lambda>p. \<lparr>pdf_pages = Inr [Inr []], pdf_ocr = Inl (LibraryError (lit ''poppler missing''))\<rparr>)
       (lit ''a.pdf'') =
     (Inl (LibraryError (lit ''poppler missing'')),
      [PdfReaderOpen (lit ''a.pdf''), PageExtractText,
       Print (ocr_message (lit ''a.pdf'')), ConvertFromPath (lit ''a.pdf'')])"
    using ocr_iff_no_direct_text [where pdf_files = "\<lambda>p. \<lparr>pdf_pages = Inr [Inr []],
          pdf_ocr = Inl (LibraryError (lit ''poppler missing''))\<rparr>"
        and pdf_path = "lit ''a.pdf''" and pages = "[Inr []]"
        and e = "LibraryError (lit ''poppler missing'')"]
    by (simp add: pdf_eval)
  have w4: "extract_text_from_pdf
       (\<lambda>p. \<lparr>pdf_pages = Inr [],
              pdf_ocr = Inr [Inr (lit ''ek''), Inl (LibraryError (lit ''tesseract missing'')),
                             Inr (lit ''do'')]\<rparr>)
       (lit ''a.pdf'') =
     (Inl (LibraryError (lit ''tesseract missing'')),
      [PdfReaderOpen (lit ''a.pdf''),
       Print (ocr_message (lit ''a.pdf'')), ConvertFromPath (lit ''a.pdf''),
       ImageToString (lit ''hin''), ImageToString (lit ''hin'')])"
    using ocr_iff_no_direct_text [where pdf_files = "\<lambda>p. \<lparr>pdf_pages = Inr [],
              pdf_ocr = Inr [Inr (lit ''ek''), Inl (LibraryError (lit ''tesseract missing'')),
                             Inr (lit ''do'')]\<rparr>"
        and pdf_path = "lit ''a.pdf''" and pages = "[]"
        and e = "LibraryError (lit ''tesseract missing'')"
        and before = "[Inr (lit ''ek'')]" and rest = "[Inr (lit ''do'')]"]
    by (simp add: pdf_eval)
  have w5: "extract_text_from_pdf sample_pdf (lit ''docs/bad.pdf'') =
     (Inl (LibraryError (lit ''EOF marker not found'')), [PdfReaderOpen (lit ''docs/bad.pdf'')])"
    using ocr_iff_no_direct_text [where pdf_files = sample_pdf and pdf_path = "lit ''docs/bad.pdf''"
        and e = "LibraryError (lit ''EOF marker not found'')"]
    by (simp add: pdf_eval)
  have w6: "extract_text_from_pdf
       (\<lambda>p. \<lparr>pdf_pages = Inr [Inr (lit ''ek''), Inl (LibraryError (lit ''bad stream'')), Inr []],
              pdf_ocr = Inr []\<rparr>)
       (lit ''a.pdf'') =
     (Inl (LibraryError (lit ''bad stream'')),
      [PdfReaderOpen (lit ''a.pdf''), PageExtractText, PageExtractText])"
    using ocr_iff_no_direct_text [where pdf_files = "\<lambda>p. \<lparr>pdf_pages =
                Inr [Inr (lit ''ek''), Inl (LibraryError (lit ''bad stream'')), Inr []],
              pdf_ocr = Inr []\<rparr>"
        and pdf_path = "lit ''a.pdf''" and e = "LibraryError (lit ''bad stream'')"
        and pages_before = "[Inr (lit ''ek'')]" and pages_rest = "[Inr []]"]
    by (simp add: pdf_eval)
  from w0 w1 w2 w3 w4 w5 w6 show ?thesis by blast
qed

section \<open>The load loop\<close>

lemma pdf_events:
  "list_all (\<lambda>ev. \<not> later_stage ev) (snd (extract_text_from_pdf pdf_files pdf_path))"
proof (cases "pdf_pages (pdf_files pdf_path)")
  case (Inl e)
  from pdf_reader_raises [of pdf_files pdf_path e] Inl show ?thesis by simp
next
  case (Inr pages)
  show ?thesis
  proof (cases "list_all (\<lambda>page. \<not> isl page) pages")
    case False
    from pdf_page_raises [of pdf_files pdf_path pages, OF Inr False] obtain e n where
      "extract_text_from_pdf pdf_files pdf_path =
           (Inl e, PdfReaderOpen pdf_path # replicate n PageExtractText)" by blast
    then show ?thesis by (auto simp: list_all_iff)
  next
    case True
    show ?thesis
    proof (cases "list_all page_blank pages")
      case False
      from pdf_direct_text [of pdf_files pdf_path pages, OF Inr True False] show ?thesis
        by (auto simp: list_all_iff)
    next
      case blank: True
      from pdf_ocr_fallback [of pdf_files pdf_path pages, OF Inr blank] obtain ocr where
        tr: "snd (extract_text_from_pdf pdf_files pdf_path) =
           PdfReaderOpen pdf_path # replicate (length pages) PageExtractText
             @ Print (ocr_message pdf_path) # ConvertFromPath pdf_path # ocr"
        and ocr: "set ocr \<subseteq> {ImageToString (lit ''hin'')}" by blast
      from ocr have "list_all (\<lambda>ev. \<not> later_stage ev) ocr"
        by (auto simp: list_all_iff)
      with tr show ?thesis by (auto simp: list_all_iff)
    qed
  qed
qed

lemma docx_events:
  "list_all (\<lambda>ev. \<not> later_stage ev) (snd (extract_text_from_docx docx_files docx_path))"
  by (cases "docx_files docx_path") (simp_all add: extract_text_from_docx_def)

lemma load_loop_fst:
  "fst (load_loop env (filename # rest) all_text) =
     (case extracted env filename of
        Inl e \<Rightarrow> Inl e
      | Inr extracted_text \<Rightarrow>
          fst (load_loop env rest
                 (if extracted_text \<noteq> [] then all_text @ [extracted_text] else all_text)))"
  by (simp add: extracted_def Let_def fst_io_bind split: sum.splits)

lemma load_loop_events:
  "list_all (\<lambda>ev. \<not> later_stage ev) (snd (load_loop env filenames all_text))"
proof (induction filenames arbitrary: all_text)
  case Nil
  then show ?case by simp
next
  case (Cons filename rest)
  show ?case
    using pdf_events [of "pdf_at env" "path_join env (data_folder env) filename"]
      docx_events [of "docx_at env" "path_join env (data_folder env) filename"]
      Cons.IH
    by (simp add: Let_def snd_io_bind split: sum.splits)
qed

lemma load_loop_ok:
  "list_all (\<lambda>filename. \<not> isl (extracted env filename)) filenames \<Longrightarrow>
   fst (load_loop env filenames all_text) =
     Inr (all_text @ filter (\<lambda>t. t \<noteq> []) (map (\<lambda>filename. projr (extracted env filename)) filenames))"
proof (induction filenames arbitrary: all_text)
  case Nil
  then show ?case by simp
next
  case (Cons filename rest)
  then obtain t where "extracted env filename = Inr t"
    by (cases "extracted env filename") auto
  with Cons show ?case by (simp add: load_loop_fst del: load_loop.simps)
qed


text \<open>Unfolding these evaluates the loader on the sample deployment.\<close>

lemmas sample_defs = sample_env_def sample_pdf_def sample_docx_def lit_def newline_def
  extracted_def extract_text_from_pdf_def extract_text_from_docx_def py_endswith_def
  py_strip_def py_isspace_def




section \<open>Startup\<close>

lemma load_api_key_missing:
  "\<not> truthy (getenv_openai_api_key env) \<Longrightarrow>
   load_api_key env =
     (Inl (ValueError (lit ''OpenAI API key is missing! Check your .env file.'')),
      [LoadDotenv, Getenv (lit ''OPENAI_API_KEY'')])"
  by (simp add: load_api_key_def)

lemma load_api_key_present:
  "truthy (getenv_openai_api_key env) \<Longrightarrow>
   load_api_key env =
     (Inr (getenv_openai_api_key env), [LoadDotenv, Getenv (lit ''OPENAI_API_KEY'')])"
  by (simp add: load_api_key_def)

lemma load_documents_no_folder:
  "\<not> path_exists env \<Longrightarrow>
   load_documents env =
     (Inl (FileNotFoundError (lit ''Folder not found: '' @ data_folder env)),
      [PathExists (data_folder env)])"
  by (simp add: load_documents_def)

lemma load_documents_no_content:
  assumes "path_exists env" and "listdir env = Inr filenames"
    and "fst (load_loop env filenames []) = Inr []"
  shows "load_documents env =
     (Inl (ValueError (lit ''No valid content found in the PDFs or DOCX files.'')),
      [PathExists (data_folder env), ListDir (data_folder env)]
        @ snd (load_loop env filenames []))"
  using assms by (simp add: load_documents_def fst_io_bind snd_io_bind)

lemma load_documents_events:
  "list_all (\<lambda>ev. \<not> later_stage ev) (snd (load_documents env))"
  using load_loop_events [of env _ "[]"]
  by (cases "listdir env") (simp_all add: load_documents_def snd_io_bind split: sum.splits)

lemma load_loop_all_empty:
  assumes "list_all (\<lambda>filename. extracted env filename = Inr []) filenames"
  shows "fst (load_loop env filenames []) = Inr []"
proof -
  from assms have ok: "list_all (\<lambda>filename. \<not> isl (extracted env filename)) filenames"
    by (simp add: list_all_iff)
  from assms have "filter (\<lambda>t. t \<noteq> []) (map (\<lambda>filename. projr (extracted env filename)) filenames) = []"
    by (simp add: list_all_iff filter_empty_conv)
  with load_loop_ok [OF ok, of "[]"] show ?thesis by simp
qed

text \<open>
  C1.  Each of the three fatal conditions ends the module with an exception that carries a
  message, and nothing of a later stage is called: a missing credential (the variable is
  unset or empty) raises \<open>ValueError\<close> right after the environment is read; a missing
  document folder raises \<open>FileNotFoundError\<close> before the folder is listed; an empty corpus
  (every listed file is extracted to no text) raises \<open>ValueError\<close> after the load loop,
  before chunking, embedding, indexing and the app.
\<close>

theorem startup_aborts:
  "(\<not> truthy (getenv_openai_api_key env) \<longrightarrow>
      run_module env =
        (Inl (ValueError (lit ''OpenAI API key is missing! Check your .env file.'')),
         [LoadDotenv, Getenv (lit ''OPENAI_API_KEY'')]))
   \<and> (truthy (getenv_openai_api_key env) \<and> \<not> path_exists env \<longrightarrow>
      run_module env =
        (Inl (FileNotFoundError (lit ''Folder not found: '' @ data_folder env)),
         [LoadDotenv, Getenv (lit ''OPENAI_API_KEY''), PathExists (data_folder env)]))
   \<and> (truthy (getenv_openai_api_key env) \<and> path_exists env
        \<and> listdir env = Inr filenames
        \<and> list_all (\<lambda>filename. extracted env filename = Inr []) filenames \<longrightarrow>
      run_module env =
        (Inl (ValueError (lit ''No valid content found in the PDFs or DOCX files.'')),
         [LoadDotenv, Getenv (lit ''OPENAI_API_KEY''), PathExists (data_folder env),
          ListDir (data_folder env)] @ snd (load_loop env filenames []))
      \<and> list_all (\<lambda>ev. \<not> later_stage ev) (snd (run_module env)))"
proof (intro conjI impI)
  assume "\<not> truthy (getenv_openai_api_key env)"
  then show "run_module env =
        (Inl (ValueError (lit ''OpenAI API key is missing! Check your .env file.'')),
         [LoadDotenv, Getenv (lit ''OPENAI_API_KEY'')])"
    by (simp add: run_module_def load_api_key_missing)
next
  assume "truthy (getenv_openai_api_key env) \<and> \<not> path_exists env"
  then show "run_module env =
        (Inl (FileNotFoundError (lit ''Folder not found: '' @ data_folder env)),
         [LoadDotenv, Getenv (lit ''OPENAI_API_KEY''), PathExists (data_folder env)])"
    by (simp add: run_module_def load_api_key_present load_documents_no_folder)
next
  assume h: "truthy (getenv_openai_api_key env) \<and> path_exists env
        \<and> listdir env = Inr filenames
        \<and> list_all (\<lambda>filename. extracted env filename = Inr []) filenames"
  then have "fst (load_loop env filenames []) = Inr []"
    by (simp add: load_loop_all_empty)
  with h have docs: "load_documents env =
     (Inl (ValueError (lit ''No valid content found in the PDFs or DOCX files.'')),
      [PathExists (data_folder env), ListDir (data_folder env)]
        @ snd (load_loop env filenames []))"
    by (simp add: load_documents_no_content)
  with h show run: "run_module env =
        (Inl (ValueError (lit ''No valid content found in the PDFs or DOCX files.'')),
         [LoadDotenv, Getenv (lit ''OPENAI_API_KEY''), PathExists (data_folder env),
          ListDir (data_folder env)] @ snd (load_loop env filenames []))"
    by (simp add: run_module_def load_api_key_present)
  show "list_all (\<lambda>ev. \<not> later_stage ev) (snd (run_module env))"
    using load_loop_events [of env filenames "[]"] by (simp add: run)
qed

text \<open>
  The sample deployment without credential, without folder, and with a folder that holds
  only a PDF without text and a text file.
\<close>

theorem startup_aborts_witness:
  "run_module (sample_env\<lparr>getenv_openai_api_key := PyNone\<rparr>) =
     (Inl (ValueError (lit ''OpenAI API key is missing! Check your .env file.'')),
      [LoadDotenv, Getenv (lit ''OPENAI_API_KEY'')])
   \<and> run_module (sample_env\<lparr>path_exists := False\<rparr>) =
     (Inl (FileNotFoundError (lit ''Folder not found: docs'')),
      [LoadDotenv, Getenv (lit ''OPENAI_API_KEY''), PathExists (lit ''docs'')])
   \<and> fst (run_module (sample_env\<lparr>listdir := Inr [lit ''blank.pdf'', lit ''notes.txt'']\<rparr>)) =
       Inl (ValueError (lit ''No valid content found in the PDFs or DOCX files.''))
   \<and> list_all (\<lambda>ev. \<not> later_stage ev)
        (snd (run_module (sample_env\<lparr>listdir := Inr [lit ''blank.pdf'', lit ''notes.txt'']\<rparr>)))"
proof -
  have a: "\<not> truthy (getenv_openai_api_key (sample_env\<lparr>getenv_openai_api_key := PyNone\<rparr>))"
    by simp
  have b: "truthy (getenv_openai_api_key (sample_env\<lparr>path_exists := False\<rparr>))
           \<and> \<not> path_exists (sample_env\<lparr>path_exists := False\<rparr>)"
    by (simp add: sample_env_def lit_def)
  have c: "truthy (getenv_openai_api_key
                     (sample_env\<lparr>listdir := Inr [lit ''blank.pdf'', lit ''notes.txt'']\<rparr>))
           \<and> path_exists (sample_env\<lparr>listdir := Inr [lit ''blank.pdf'', lit ''notes.txt'']\<rparr>)
           \<and> listdir (sample_env\<lparr>listdir := Inr [lit ''blank.pdf'', lit ''notes.txt'']\<rparr>)
               = Inr [lit ''blank.pdf'', lit ''notes.txt'']
           \<and> list_all (\<lambda>filename.
                 extracted (sample_env\<lparr>listdir := Inr [lit ''blank.pdf'', lit ''notes.txt'']\<rparr>)
                   filename = Inr [])
               [lit ''blank.pdf'', lit ''notes.txt'']"
    by (simp add: sample_defs)
  from a startup_aborts [of "sample_env\<lparr>getenv_openai_api_key := PyNone\<rparr>"]
  have 1: "run_module (sample_env\<lparr>getenv_openai_api_key := PyNone\<rparr>) =
     (Inl (ValueError (lit ''OpenAI API key is missing! Check your .env file.'')),
      [LoadDotenv, Getenv (lit ''OPENAI_API_KEY'')])"
    by blast
  from b startup_aborts [of "sample_env\<lparr>path_exists := False\<rparr>"]
  have "run_module (sample_env\<lparr>path_exists := False\<rparr>) =
     (Inl (FileNotFoundError
             (lit ''Folder not found: '' @ data_folder (sample_env\<lparr>path_exists := False\<rparr>))),
      [LoadDotenv, Getenv (lit ''OPENAI_API_KEY''),
       PathExists (data_folder (sample_env\<lparr>path_exists := False\<rparr>))])"
    by blast
  then have 2: "run_module (sample_env\<lparr>path_exists := False\<rparr>) =
     (Inl (FileNotFoundError (lit ''Folder not found: docs'')),
      [LoadDotenv, Getenv (lit ''OPENAI_API_KEY''), PathExists (lit ''docs'')])"
    by (simp add: sample_env_def lit_def)
  from c startup_aborts
           [of "sample_env\<lparr>listdir := Inr [lit ''blank.pdf'', lit ''notes.txt'']\<rparr>"
               "[lit ''blank.pdf'', lit ''notes.txt'']"]
  have 3: "fst (run_module (sample_env\<lparr>listdir := Inr [lit ''blank.pdf'', lit ''notes.txt'']\<rparr>))
             = Inl (ValueError (lit ''No valid content found in the PDFs or DOCX files.''))
           \<and> list_all (\<lambda>ev. \<not> later_stage ev)
                (snd (run_module
                        (sample_env\<lparr>listdir := Inr [lit ''blank.pdf'', lit ''notes.txt'']\<rparr>)))"
    by (metis fst_conv)
  from 1 2 3 show ?thesis by blast
qed

lemma main_guard_raises:
  "main_guard env =
     (Inl (NameError (lit ''name '' @ [39] @ lit ''_name_'' @ [39] @ lit '' is not defined'')), [])"
  by (simp add: main_guard_def module_namespace_def io_raise_def)

lemma build_index_events: "AppRun \<notin> set (snd (build_index env openai_api_key full_text))"
  by (cases "split_text env 500 50 full_text"; cases "faiss_from_texts env (projr (split_text env 500 50 full_text))")
     (simp_all add: build_index_def io_call_def)

lemma build_index_done:
  "build_index env openai_api_key full_text = (Inr (), tr) \<Longrightarrow>
   \<exists>chunks. split_text env 500 50 full_text = Inr chunks \<and> FaissFromTexts chunks \<in> set tr"
  by (cases "split_text env 500 50 full_text"; cases "faiss_from_texts env (projr (split_text env 500 50 full_text))")
     (auto simp add: build_index_def io_call_def)

lemma load_api_key_events: "AppRun \<notin> set (snd (load_api_key env))"
  by (cases "truthy (getenv_openai_api_key env)")
     (simp_all add: load_api_key_missing load_api_key_present)

lemma not_later_stage_AppRun: "list_all (\<lambda>ev. \<not> later_stage ev) tr \<Longrightarrow> AppRun \<notin> set tr"
  by (auto simp: list_all_iff)

text \<open>
  C9.  The guard of line 119 reads \<open>_name_\<close>, which is bound nowhere.  When the stages
  before it complete (the vector store has been built), the module ends with
  \<open>NameError\<close>; \<open>app.run\<close> is never called, whatever the environment, and the module never
  runs to its end, also when \<open>__name__\<close> is \<open>"__main__"\<close>.
\<close>

theorem main_guard_name_error:
  "(load_api_key env = (Inr openai_api_key, tr1)
      \<and> load_documents env = (Inr full_text, tr2)
      \<and> build_index env openai_api_key full_text = (Inr (), tr3) \<longrightarrow>
    run_module env =
      (Inl (NameError (lit ''name '' @ [39] @ lit ''_name_'' @ [39] @ lit '' is not defined'')),
       tr1 @ tr2 @ tr3)
    \<and> (\<exists>chunks. FaissFromTexts chunks \<in> set tr3))
   \<and> AppRun \<notin> set (snd (run_module env))
   \<and> fst (run_module env) \<noteq> Inr ()"
proof (intro conjI impI)
  assume h: "load_api_key env = (Inr openai_api_key, tr1)
      \<and> load_documents env = (Inr full_text, tr2)
      \<and> build_index env openai_api_key full_text = (Inr (), tr3)"
  then show "run_module env =
      (Inl (NameError (lit ''name '' @ [39] @ lit ''_name_'' @ [39] @ lit '' is not defined'')),
       tr1 @ tr2 @ tr3)"
    by (simp add: run_module_def main_guard_raises)
  from h build_index_done [of env openai_api_key full_text tr3]
  show "\<exists>chunks. FaissFromTexts chunks \<in> set tr3" by blast
next
  show "AppRun \<notin> set (snd (run_module env))"
    using load_api_key_events [of env] not_later_stage_AppRun [OF load_documents_events [of env]]
      build_index_events [of env]
    by (auto simp add: run_module_def snd_io_bind main_guard_raises split: sum.splits)
next
  show "fst (run_module env) \<noteq> Inr ()"
    by (simp add: run_module_def fst_io_bind main_guard_raises split: sum.splits)
qed

text \<open>The sample deployment, run as a script.\<close>

theorem main_guard_name_error_witness:
  "module_dunder_name sample_env = lit ''__main__''
   \<and> fst (run_module sample_env) =
       Inl (NameError (lit ''name '' @ [39] @ lit ''_name_'' @ [39] @ lit '' is not defined''))
   \<and> FaissFromTexts [lit ''namaste'' @ newline @ lit ''rule one'' @ newline @ lit ''rule two'']
       \<in> set (snd (run_module sample_env))
   \<and> AppRun \<notin> set (snd (run_module sample_env))"
proof -
  have key: "fst (load_api_key sample_env) = Inr (PyStr (lit ''sk-test''))"
    by (simp add: load_api_key_def sample_env_def lit_def)
  have docs: "fst (load_documents sample_env) =
                Inr (lit ''namaste'' @ newline @ lit ''rule one'' @ newline @ lit ''rule two'')"
    by (simp add: load_documents_def fst_io_bind load_loop_fst sample_defs del: load_loop.simps(2))
  have idx: "fst (build_index sample_env (PyStr (lit ''sk-test''))
                (lit ''namaste'' @ newline @ lit ''rule one'' @ newline @ lit ''rule two'')) = Inr ()"
    by (simp add: build_index_def sample_env_def io_call_def)
  have faiss: "FaissFromTexts [lit ''namaste'' @ newline @ lit ''rule one'' @ newline @ lit ''rule two'']
       \<in> set (snd (build_index sample_env (PyStr (lit ''sk-test''))
                (lit ''namaste'' @ newline @ lit ''rule one'' @ newline @ lit ''rule two'')))"
    by (simp add: build_index_def sample_env_def io_call_def)
  have name: "module_dunder_name sample_env = lit ''__main__''"
    by (simp add: sample_env_def)
  from key have k: "load_api_key sample_env =
      (Inr (PyStr (lit ''sk-test'')), snd (load_api_key sample_env))"
    by (simp add: prod_eq_iff)
  from docs have d: "load_documents sample_env =
      (Inr (lit ''namaste'' @ newline @ lit ''rule one'' @ newline @ lit ''rule two''),
       snd (load_documents sample_env))"
    by (simp add: prod_eq_iff)
  from idx have i: "build_index sample_env (PyStr (lit ''sk-test''))
        (lit ''namaste'' @ newline @ lit ''rule one'' @ newline @ lit ''rule two'') =
      (Inr (), snd (build_index sample_env (PyStr (lit ''sk-test''))
        (lit ''namaste'' @ newline @ lit ''rule one'' @ newline @ lit ''rule two'')))"
    by (simp add: prod_eq_iff)
  from k d i
    main_guard_name_error
      [of sample_env "PyStr (lit ''sk-test'')" "snd (load_api_key sample_env)"
          "lit ''namaste'' @ newline @ lit ''rule one'' @ newline @ lit ''rule two''"
          "snd (load_documents sample_env)"
          "snd (build_index sample_env (PyStr (lit ''sk-test''))
                (lit ''namaste'' @ newline @ lit ''rule one'' @ newline @ lit ''rule two''))"]
  have run: "run_module sample_env =
      (Inl (NameError (lit ''name '' @ [39] @ lit ''_name_'' @ [39] @ lit '' is not defined'')),
       snd (load_api_key sample_env) @ snd (load_documents sample_env)
       @ snd (build_index sample_env (PyStr (lit ''sk-test''))
                (lit ''namaste'' @ newline @ lit ''rule one'' @ newline @ lit ''rule two'')))"
    and norun: "AppRun \<notin> set (snd (run_module sample_env))"
    by blast+
  from run faiss name norun show ?thesis by simp
qed

section \<open>The farewell route\<close>

text \<open>
  C7.  For every value \<open>n\<close> of the \<open>name\<close> query parameter, \<open>exit_app\<close> returns, without
  raising and without any outside call, a JSON object whose only field is \<open>farewell\<close>, and
  the farewell string contains \<open>n\<close>.
\<close>

theorem exit_app_named:
  "args request (lit ''name'') = Some n \<Longrightarrow>
     exit_app request =
       (Inr (Jsonify [(lit ''farewell'',
          [0x1F44B] @ lit '' Bye, '' @ n @ lit ''! Have a great day! '' @ [0x1F60A])]), [])
     \<and> sublist n ([0x1F44B] @ lit '' Bye, '' @ n @ lit ''! Have a great day! '' @ [0x1F60A])"
  using sublist_mid [of n "[0x1F44B] @ lit '' Bye, ''" "lit ''! Have a great day! '' @ [0x1F60A]"]
  by (simp add: exit_app_def dict_get_def io_return_def)

text \<open>The request \<open>/exit?name=Asha\<close>.\<close>

theorem exit_app_named_witness:
  "exit_app \<lparr>req_method = lit ''GET'', form = Map.empty,
             args = [lit ''name'' \<mapsto> lit ''Asha'']\<rparr> =
       (Inr (Jsonify [(lit ''farewell'',
          [0x1F44B] @ lit '' Bye, Asha! Have a great day! '' @ [0x1F60A])]), [])
     \<and> sublist (lit ''Asha'') ([0x1F44B] @ lit '' Bye, Asha! Have a great day! '' @ [0x1F60A])"
  using exit_app_named [of "\<lparr>req_method = lit ''GET'', form = Map.empty,
                             args = [lit ''name'' \<mapsto> lit ''Asha'']\<rparr>" "lit ''Asha''"]
  by (simp add: lit_def)

text \<open>
  C10.  When the request has no \<open>name\<close> query parameter, \<open>exit_app\<close> does not raise: the
  name defaults to \<open>friend\<close>, and the JSON farewell contains \<open>friend\<close>.
\<close>

theorem exit_app_default:
  "args request (lit ''name'') = None \<Longrightarrow>
     exit_app request =
       (Inr (Jsonify [(lit ''farewell'',
          [0x1F44B] @ lit '' Bye, '' @ lit ''friend'' @ lit ''! Have a great day! ''
            @ [0x1F60A])]), [])
     \<and> sublist (lit ''friend'')
          ([0x1F44B] @ lit '' Bye, '' @ lit ''friend'' @ lit ''! Have a great day! ''
            @ [0x1F60A])"
  using sublist_mid [of "lit ''friend''" "[0x1F44B] @ lit '' Bye, ''"
                        "lit ''! Have a great day! '' @ [0x1F60A]"]
  by (simp add: exit_app_def dict_get_def io_return_def)

text \<open>The request \<open>/exit\<close>.\<close>

theorem exit_app_default_witness:
  "exit_app \<lparr>req_method = lit ''GET'', form = Map.empty, args = Map.empty\<rparr> =
       (Inr (Jsonify [(lit ''farewell'',
          [0x1F44B] @ lit '' Bye, friend! Have a great day! '' @ [0x1F60A])]), [])
     \<and> sublist (lit ''friend'')
          ([0x1F44B] @ lit '' Bye, friend! Have a great day! '' @ [0x1F60A])"
  using exit_app_default [of "\<lparr>req_method = lit ''GET'', form = Map.empty, args = Map.empty\<rparr>"]
  by (simp add: lit_def)

section \<open>The question route\<close>

text \<open>
  C4.  For every query: when the answer invocation (\<open>qa_chain.run\<close>) returns an empty
  result, \<open>handle_user_input\<close> returns the apology placeholder and the translation is not
  invoked; when the answer is not empty and the translation invocation (\<open>llm.invoke\<close>)
  returns an empty result, it returns the placeholder \<open>Translation failed.\<close>; otherwise it
  returns the output of the translation.
\<close>

theorem handle_user_input_placeholders:
  "(qa_chain_run env user_query = Inr hindi_response \<and> \<not> truthy hindi_response \<longrightarrow>
      handle_user_input env user_query = (Inr (PyStr apology), [QaChainRun user_query]))
   \<and> (qa_chain_run env user_query = Inr hindi_response \<and> truthy hindi_response
        \<and> llm_invoke env (translation_prompt hindi_response) = Inr english_response
        \<and> \<not> truthy english_response \<longrightarrow>
      handle_user_input env user_query =
        (Inr (PyStr (lit ''Translation failed.'')),
         [QaChainRun user_query, LlmInvoke (translation_prompt hindi_response)]))
   \<and> (qa_chain_run env user_query = Inr hindi_response \<and> truthy hindi_response
        \<and> llm_invoke env (translation_prompt hindi_response) = Inr english_response
        \<and> truthy english_response \<longrightarrow>
      handle_user_input env user_query =
        (Inr english_response,
         [QaChainRun user_query, LlmInvoke (translation_prompt hindi_response)]))"
  by (simp add: handle_user_input_def)

text \<open>
  The three cases in the sample deployment: a question without answer, a translation that
  comes back as \<open>None\<close>, and a question answered and translated.
\<close>

theorem handle_user_input_placeholders_witness:
  "handle_user_input sample_env (PyStr (lit ''unknown'')) =
     (Inr (PyStr apology), [QaChainRun (PyStr (lit ''unknown''))])
   \<and> handle_user_input (sample_env\<lparr>llm_invoke := \<lambda>p. Inr PyNone\<rparr>) (PyStr (lit ''kya'')) =
       (Inr (PyStr (lit ''Translation failed.'')),
        [QaChainRun (PyStr (lit ''kya'')), LlmInvoke (translation_prompt (PyStr (lit ''uttar'')))])
   \<and> handle_user_input sample_env (PyStr (lit ''kya'')) =
       (Inr (PyStr (lit ''answer'')),
        [QaChainRun (PyStr (lit ''kya'')), LlmInvoke (translation_prompt (PyStr (lit ''uttar'')))])"
proof (intro conjI)
  show "handle_user_input sample_env (PyStr (lit ''unknown'')) =
          (Inr (PyStr apology), [QaChainRun (PyStr (lit ''unknown''))])"
    using handle_user_input_placeholders
            [of sample_env "PyStr (lit ''unknown'')" "PyStr []" PyNone]
    by (simp add: sample_env_def)
  show "handle_user_input (sample_env\<lparr>llm_invoke := \<lambda>p. Inr PyNone\<rparr>) (PyStr (lit ''kya'')) =
          (Inr (PyStr (lit ''Translation failed.'')),
           [QaChainRun (PyStr (lit ''kya'')),
            LlmInvoke (translation_prompt (PyStr (lit ''uttar'')))])"
    using handle_user_input_placeholders
            [of "sample_env\<lparr>llm_invoke := \<lambda>p. Inr PyNone\<rparr>" "PyStr (lit ''kya'')"
                "PyStr (lit ''uttar'')" PyNone]
    by (simp add: sample_env_def lit_def)
  show "handle_user_input sample_env (PyStr (lit ''kya'')) =
          (Inr (PyStr (lit ''answer'')),
           [QaChainRun (PyStr (lit ''kya'')),
            LlmInvoke (translation_prompt (PyStr (lit ''uttar'')))])"
    using handle_user_input_placeholders
            [of sample_env "PyStr (lit ''kya'')" "PyStr (lit ''uttar'')"
                "PyStr (lit ''answer'')"]
    by (simp add: sample_env_def lit_def)
qed

text \<open>
  C6.  For every POST to the root route whose \<open>question\<close> form field is missing or empty,
  \<open>index\<close> renders the template with the initial greeting as its only argument; neither
  model invocation is made and no \<open>response\<close> argument is passed.
\<close>

theorem index_without_question:
  "req_method request = lit ''POST'' \<Longrightarrow>
   form request (lit ''question'') = None \<or> form request (lit ''question'') = Some [] \<Longrightarrow>
   index env request =
     (Inr (RenderTemplate (lit ''index.html'') [(''greeting'', PyStr initial_greeting)]), [])"
  by (auto simp add: index_def dict_get_def Let_def io_return_def)

text \<open>A POST with name and date of birth, once without and once with an empty question.\<close>

theorem index_without_question_witness:
  "index sample_env
     (sample_request [lit ''name'' \<mapsto> lit ''Asha'', lit ''dob'' \<mapsto> lit ''2001-01-01'']
        Map.empty) =
     (Inr (RenderTemplate (lit ''index.html'') [(''greeting'', PyStr initial_greeting)]), [])
   \<and> index sample_env
     (sample_request [lit ''name'' \<mapsto> lit ''Asha'', lit ''dob'' \<mapsto> lit ''2001-01-01'',
                      lit ''question'' \<mapsto> []] Map.empty) =
     (Inr (RenderTemplate (lit ''index.html'') [(''greeting'', PyStr initial_greeting)]), [])"
  using index_without_question
          [of "sample_request [lit ''name'' \<mapsto> lit ''Asha'', lit ''dob'' \<mapsto> lit ''2001-01-01'']
                 Map.empty" sample_env]
        index_without_question
          [of "sample_request [lit ''name'' \<mapsto> lit ''Asha'', lit ''dob'' \<mapsto> lit ''2001-01-01'',
                      lit ''question'' \<mapsto> []] Map.empty" sample_env]
  by (simp add: sample_request_def lit_def)

end
